theory Spec2Isabelle
  imports Complex_Main
begin

section \<open>Values and input\<close>

text \<open>
  The script \<^verbatim>\<open>plot_results.py\<close> reads a CSV of Monte Carlo estimates of pi and
  plots or summarises it. Its floating-point columns are modelled over the reals,
  extended by the non-finite values that numpy and pandas return where Python's own
  arithmetic would raise: \<^verbatim>\<open>np.log(0)\<close> is \<^verbatim>\<open>-inf\<close>, \<^verbatim>\<open>1.0 / 0.0\<close> on a
  column is \<^verbatim>\<open>inf\<close>, the standard deviation of a single row is \<^verbatim>\<open>nan\<close>.
\<close>

datatype fnum = Num real | PosInf | NegInf | NaN

fun fneg :: "fnum \<Rightarrow> fnum" where
  "fneg (Num x) = Num (- x)"
| "fneg PosInf = NegInf"
| "fneg NegInf = PosInf"
| "fneg NaN = NaN"

text \<open>
  Division of a float by a positive finite constant, as in \<^verbatim>\<open>convergence_rate/0.5\<close>;
  \<open>rnd\<close> rounds the quotient (see the section on rounding).
\<close>

fun fdiv_const :: "(real \<Rightarrow> real) \<Rightarrow> fnum \<Rightarrow> real \<Rightarrow> fnum" where
  "fdiv_const rnd (Num x) c = Num (rnd (x / c))"
| "fdiv_const rnd PosInf c = PosInf"
| "fdiv_const rnd NegInf c = NegInf"
| "fdiv_const rnd NaN c = NaN"

text \<open>
  \<^verbatim>\<open>np.pi\<close> is the binary64 number nearest to pi, \<^verbatim>\<open>0x400921FB54442D18\<close>, that is
  884279719003555 / 2^48.
\<close>

definition np_pi :: real where
  "np_pi = 884279719003555 / 281474976710656"

text \<open>One CSV row holds the three columns the script reads.\<close>

record row =
  Sample_Count :: int
  Pi_Estimate :: real
  Error :: real

type_synonym dataframe = "row list"

datatype exn = FileNotFoundError | EmptyDataError | IndexError | LinAlgError

text \<open>
  What a path holds: nothing, a file without any column (zero bytes), or a table with
  the three columns. \<^verbatim>\<open>pd.read_csv\<close> raises on the first two.
\<close>

datatype source = Missing | EmptyFile | Table dataframe

type_synonym filesystem = "string \<Rightarrow> source"

definition read_csv :: "filesystem \<Rightarrow> string \<Rightarrow> exn + dataframe" where
  "read_csv fs csv_file =
     (case fs csv_file of
        Missing \<Rightarrow> Inl FileNotFoundError
      | EmptyFile \<Rightarrow> Inl EmptyDataError
      | Table df \<Rightarrow> Inr df)"

definition exists :: "filesystem \<Rightarrow> string \<Rightarrow> bool" where
  "exists fs p = (fs p \<noteq> Missing)"

definition not_found_msg :: "string \<Rightarrow> string" where
  "not_found_msg csv_file = ''Error: File '' @ [CHR 0x27] @ csv_file @ [CHR 0x27] @ '' not found.''"

definition empty_msg :: "string \<Rightarrow> string" where
  "empty_msg csv_file = ''Error: File '' @ [CHR 0x27] @ csv_file @ [CHR 0x27] @ '' is empty.''"

text \<open>
  What a call leaves behind besides the lines it prints: nothing, a figure written to a
  file, a figure shown on screen, or a report printed.
\<close>

datatype 'a product = Nothing | Saved 'a string | Shown 'a | Printed 'a

text \<open>\<^verbatim>\<open>if output_file:\<close> holds for a string that is present and not empty.\<close>

fun truthy :: "string option \<Rightarrow> bool" where
  "truthy None = False"
| "truthy (Some s) = (s \<noteq> [])"

section \<open>Rounding\<close>

text \<open>
  The arithmetic the script writes out itself (division, multiplication, squaring,
  square root) is IEEE arithmetic: each operation returns the exact result rounded.
  That rounding is the parameter \<open>rnd\<close> of the functions below: the identity gives
  exact arithmetic, \<open>b64\<close> gives binary64, rounding to the nearest number of 53
  significant bits with ties to even (overflow and subnormal numbers left aside, and
  sample counts taken below \<open>2^53\<close>, where the conversion to a float is exact).
  The logarithm, the least-squares fit and the column statistics are library
  routines; they are modelled in exact arithmetic.
\<close>

definition round_even :: "real \<Rightarrow> int" where
  "round_even y =
     (let f = \<lfloor>y\<rfloor>; t = y - of_int f
      in if t < 1 / 2 then f else if 1 / 2 < t then f + 1 else if even f then f else f + 1)"

definition b64 :: "real \<Rightarrow> real" where
  "b64 x =
     (if x = 0 then 0
      else (let u = 2 powi (\<lfloor>log 2 \<bar>x\<bar>\<rfloor> - 52) in of_int (round_even (x / u)) * u))"

section \<open>Derived columns\<close>

definition np_log :: "real \<Rightarrow> fnum" where
  "np_log x = (if 0 < x then Num (ln x) else if x = 0 then NegInf else NaN)"

definition np_sqrt :: "(real \<Rightarrow> real) \<Rightarrow> real \<Rightarrow> fnum" where
  "np_sqrt rnd x = (if 0 \<le> x then Num (rnd (sqrt x)) else NaN)"

text \<open>\<^verbatim>\<open>1.0 / column\<close>: numpy divides by zero without raising.\<close>

fun np_reciprocal :: "(real \<Rightarrow> real) \<Rightarrow> fnum \<Rightarrow> fnum" where
  "np_reciprocal rnd (Num d) = (if d = 0 then PosInf else Num (rnd (1 / d)))"
| "np_reciprocal rnd PosInf = Num 0"
| "np_reciprocal rnd NegInf = Num 0"
| "np_reciprocal rnd NaN = NaN"

definition relative_error :: "(real \<Rightarrow> real) \<Rightarrow> dataframe \<Rightarrow> real list" where
  "relative_error rnd df = map (\<lambda>r. rnd (rnd (Error r / np_pi) * 100)) df"

definition theoretical_error :: "(real \<Rightarrow> real) \<Rightarrow> dataframe \<Rightarrow> fnum list" where
  "theoretical_error rnd df =
     map (\<lambda>r. np_reciprocal rnd (np_sqrt rnd (of_int (Sample_Count r)))) df"

definition log_samples :: "dataframe \<Rightarrow> fnum list" where
  "log_samples df = map (\<lambda>r. np_log (of_int (Sample_Count r))) df"

definition log_errors :: "dataframe \<Rightarrow> fnum list" where
  "log_errors df = map (\<lambda>r. np_log (Error r)) df"

text \<open>
  \<^verbatim>\<open>1.0 / (df['Sample_Count'] * df['Error']**2)\<close>: the square, the product and the
  quotient each round their result.
\<close>

definition efficiency_divisor :: "(real \<Rightarrow> real) \<Rightarrow> row \<Rightarrow> real" where
  "efficiency_divisor rnd r = rnd (of_int (Sample_Count r) * rnd (Error r * Error r))"

definition efficiency :: "(real \<Rightarrow> real) \<Rightarrow> dataframe \<Rightarrow> fnum list" where
  "efficiency rnd df = map (\<lambda>r. np_reciprocal rnd (Num (efficiency_divisor rnd r))) df"

section \<open>Least-squares line\<close>

text \<open>
  \<^verbatim>\<open>np.polyfit(x, y, 1)\<close> returns the slope and the intercept, highest degree first,
  of the least-squares line. On the reals this is the solution of the normal
  equations, which exists when the system has full rank. What numpy does otherwise
  (a rank warning with some coefficients, or \<^verbatim>\<open>LinAlgError\<close> on a non-finite
  entry) is kept as the parameter \<open>ill\<close>.
\<close>

type_synonym coeffs = "fnum \<times> fnum"

type_synonym illposed = "fnum list \<Rightarrow> fnum list \<Rightarrow> exn + coeffs"

fun finite_part :: "fnum list \<Rightarrow> real list option" where
  "finite_part [] = Some []"
| "finite_part (Num x # vs) = (case finite_part vs of None \<Rightarrow> None | Some xs \<Rightarrow> Some (x # xs))"
| "finite_part (_ # vs) = None"

definition normal_equations :: "(real \<times> real) list \<Rightarrow> (real \<times> real) option" where
  "normal_equations ps =
     (let n = real (length ps);
          sx = (\<Sum>(x, y)\<leftarrow>ps. x);
          sy = (\<Sum>(x, y)\<leftarrow>ps. y);
          sxx = (\<Sum>(x, y)\<leftarrow>ps. x * x);
          sxy = (\<Sum>(x, y)\<leftarrow>ps. x * y);
          d = n * sxx - sx * sx
      in if d = 0 then None
         else (let a = (n * sxy - sx * sy) / d in Some (a, (sy - a * sx) / n)))"

definition polyfit1 :: "illposed \<Rightarrow> fnum list \<Rightarrow> fnum list \<Rightarrow> exn + coeffs" where
  "polyfit1 ill xs ys =
     (case (finite_part xs, finite_part ys) of
        (Some us, Some vs) \<Rightarrow>
          (if length us = length vs
           then (case normal_equations (zip us vs) of
                   Some (a, b) \<Rightarrow> Inr (Num a, Num b)
                 | None \<Rightarrow> ill xs ys)
           else ill xs ys)
      | _ \<Rightarrow> ill xs ys)"

text \<open>
  The block both \<^verbatim>\<open>plot_error_analysis\<close> (lines 123 to 128) and
  \<^verbatim>\<open>create_summary_report\<close> (lines 220 to 223) run when \<^verbatim>\<open>len(df) > 1\<close>: the
  logs, the fit and the negated slope.
\<close>

record rate_fit =
  fit_log_samples :: "fnum list"
  fit_log_errors :: "fnum list"
  fit_coeffs :: coeffs
  convergence_rate :: fnum

definition log_log_fit :: "illposed \<Rightarrow> dataframe \<Rightarrow> exn + rate_fit" where
  "log_log_fit ill df =
     (case polyfit1 ill (log_samples df) (log_errors df) of
        Inl e \<Rightarrow> Inl e
      | Inr c \<Rightarrow> Inr \<lparr>fit_log_samples = log_samples df, fit_log_errors = log_errors df,
                       fit_coeffs = c, convergence_rate = fneg (fst c)\<rparr>)"

section \<open>Descriptive statistics of a column\<close>

text \<open>
  pandas returns \<^verbatim>\<open>nan\<close> for the minimum, maximum and mean of an empty column, and
  for the standard deviation of fewer than two values: \<^verbatim>\<open>Series.std\<close> divides by
  \<open>n - 1\<close>.
\<close>

fun pd_min :: "real list \<Rightarrow> fnum" where
  "pd_min [] = NaN"
| "pd_min (x # xs) = Num (fold min xs x)"

fun pd_max :: "real list \<Rightarrow> fnum" where
  "pd_max [] = NaN"
| "pd_max (x # xs) = Num (fold max xs x)"

definition mean :: "real list \<Rightarrow> real" where
  "mean xs = sum_list xs / real (length xs)"

definition pd_mean :: "real list \<Rightarrow> fnum" where
  "pd_mean xs = (if xs = [] then NaN else Num (mean xs))"

definition pd_std :: "real list \<Rightarrow> fnum" where
  "pd_std xs =
     (if length xs < 2 then NaN
      else Num (sqrt ((\<Sum>x\<leftarrow>xs. (x - mean xs)\<^sup>2) / (real (length xs) - 1))))"

record stats =
  stat_min :: fnum
  stat_max :: fnum
  stat_mean :: fnum
  stat_std :: fnum

definition describe :: "real list \<Rightarrow> stats" where
  "describe xs = \<lparr>stat_min = pd_min xs, stat_max = pd_max xs,
                  stat_mean = pd_mean xs, stat_std = pd_std xs\<rparr>"

text \<open>\<^verbatim>\<open>column.iloc[-1]\<close> raises on a table without rows.\<close>

definition iloc_last :: "'a list \<Rightarrow> exn + 'a" where
  "iloc_last xs = (if xs = [] then Inl IndexError else Inr (last xs))"

definition and_then :: "exn + 'a \<Rightarrow> ('a \<Rightarrow> exn + 'b) \<Rightarrow> exn + 'b" where
  "and_then m f = (case m of Inl e \<Rightarrow> Inl e | Inr x \<Rightarrow> f x)"

text \<open>
  The end of both plotting functions: save and report the path when an output file is
  given, show the figure otherwise. The result is the printed lines and the product.
\<close>

definition finish :: "string \<Rightarrow> string option \<Rightarrow> 'a \<Rightarrow> string list \<times> 'a product" where
  "finish label output_file fig =
     (case output_file of
        None \<Rightarrow> ([], Shown fig)
      | Some p \<Rightarrow> (if truthy output_file then ([label @ p], Saved fig p) else ([], Shown fig)))"

section \<open>The three visualisations\<close>

datatype distribution_panel = Histogram nat "real list" | Placeholder string

record convergence_figure =
  cf_estimates :: "(int \<times> real) list"
  cf_errors :: "(int \<times> real) list"
  cf_relative_error :: "(int \<times> real) list"
  cf_distribution :: distribution_panel

definition convergence_panels :: "(real \<Rightarrow> real) \<Rightarrow> dataframe \<Rightarrow> convergence_figure" where
  "convergence_panels rnd df =
     \<lparr>cf_estimates = zip (map Sample_Count df) (map Pi_Estimate df),
      cf_errors = zip (map Sample_Count df) (map Error df),
      cf_relative_error = zip (map Sample_Count df) (relative_error rnd df),
      cf_distribution =
        (if length df > 10
         then Histogram (min 20 (length df div 5)) (map Pi_Estimate df)
         else Placeholder (''Not enough data points'' @ [CHR 0x0A] @ ''for histogram''))\<rparr>"

definition plot_convergence ::
  "(real \<Rightarrow> real) \<Rightarrow> filesystem \<Rightarrow> string \<Rightarrow> string option \<Rightarrow> exn + (string list \<times> convergence_figure product)"
where
  "plot_convergence rnd fs csv_file output_file =
     (case read_csv fs csv_file of
        Inl FileNotFoundError \<Rightarrow> Inr ([not_found_msg csv_file], Nothing)
      | Inl EmptyDataError \<Rightarrow> Inr ([empty_msg csv_file], Nothing)
      | Inl e \<Rightarrow> Inl e
      | Inr df \<Rightarrow> Inr (finish ''Plot saved to '' output_file (convergence_panels rnd df)))"

record summary_text =
  st_final_estimate :: real
  st_actual_pi :: real
  st_final_error :: real
  st_final_rel_error :: real
  st_error :: stats

record error_figure =
  ef_errors :: "(int \<times> real) list"
  ef_theoretical :: "fnum list"
  ef_relative_error :: "real list"
  ef_scatter :: "(real \<times> real) list"
  ef_rate :: "rate_fit option"
  ef_summary :: summary_text
  ef_efficiency :: "fnum list"

text \<open>The guarded block \<^verbatim>\<open>if len(df) > 1:\<close> of lines 121 and 219.\<close>

definition rate_analysis :: "illposed \<Rightarrow> dataframe \<Rightarrow> exn + rate_fit option" where
  "rate_analysis ill df =
     (if length df > 1 then and_then (log_log_fit ill df) (\<lambda>f. Inr (Some f)) else Inr None)"

definition plot_error_analysis ::
  "(real \<Rightarrow> real) \<Rightarrow> illposed \<Rightarrow> filesystem \<Rightarrow> string \<Rightarrow> string option
     \<Rightarrow> exn + (string list \<times> error_figure product)"
where
  "plot_error_analysis rnd ill fs csv_file output_file =
     (case read_csv fs csv_file of
        Inl FileNotFoundError \<Rightarrow> Inr ([not_found_msg csv_file], Nothing)
      | Inl e \<Rightarrow> Inl e
      | Inr df \<Rightarrow>
          and_then (rate_analysis ill df) (\<lambda>rate.
          and_then (iloc_last (map Pi_Estimate df)) (\<lambda>final_estimate.
          and_then (iloc_last (map Error df)) (\<lambda>final_error.
          and_then (iloc_last (relative_error rnd df)) (\<lambda>final_rel_error.
            Inr (finish ''Error analysis plot saved to '' output_file
              \<lparr>ef_errors = zip (map Sample_Count df) (map Error df),
               ef_theoretical = theoretical_error rnd df,
               ef_relative_error = relative_error rnd df,
               ef_scatter = zip (map Pi_Estimate df) (map Error df),
               ef_rate = rate,
               ef_summary =
                 \<lparr>st_final_estimate = final_estimate, st_actual_pi = np_pi,
                  st_final_error = final_error, st_final_rel_error = final_rel_error,
                  st_error = describe (map Error df)\<rparr>,
               ef_efficiency = efficiency rnd df\<rparr>))))))"

text \<open>
  The report, as the values its lines print. The convergence section holds the rate
  and the rate ratio \<^verbatim>\<open>convergence_rate/0.5\<close>.
\<close>

record report =
  rp_file :: string
  rp_total :: nat
  rp_sample_range :: "(int \<times> int) option"
  rp_final_estimate :: real
  rp_actual_pi :: real
  rp_final_error :: real
  rp_relative_error :: real
  rp_error :: stats
  rp_estimate :: stats
  rp_convergence :: "(fnum \<times> fnum) option"

definition sample_range :: "int list \<Rightarrow> (int \<times> int) option" where
  "sample_range ns = (case ns of [] \<Rightarrow> None | n # ms \<Rightarrow> Some (fold min ms n, fold max ms n))"

definition create_summary_report ::
  "(real \<Rightarrow> real) \<Rightarrow> illposed \<Rightarrow> filesystem \<Rightarrow> string \<Rightarrow> exn + (string list \<times> report product)"
where
  "create_summary_report rnd ill fs csv_file =
     (case read_csv fs csv_file of
        Inl FileNotFoundError \<Rightarrow> Inr ([not_found_msg csv_file], Nothing)
      | Inl e \<Rightarrow> Inl e
      | Inr df \<Rightarrow>
          and_then (iloc_last (map Pi_Estimate df)) (\<lambda>final_estimate.
          and_then (iloc_last (map Error df)) (\<lambda>final_error.
          and_then (rate_analysis ill df) (\<lambda>rate.
            Inr ([], Printed
              \<lparr>rp_file = csv_file,
               rp_total = length df,
               rp_sample_range = sample_range (map Sample_Count df),
               rp_final_estimate = final_estimate,
               rp_actual_pi = np_pi,
               rp_final_error = final_error,
               rp_relative_error = rnd (rnd (final_error / np_pi) * 100),
               rp_error = describe (map Error df),
               rp_estimate = describe (map Pi_Estimate df),
               rp_convergence =
                 map_option (\<lambda>f. (convergence_rate f, fdiv_const rnd (convergence_rate f) 0.5))
                   rate\<rparr>)))))"

section \<open>The driver\<close>

datatype mode = Convergence | ErrorAnalysis | Summary

datatype outcome =
    NotDispatched
  | ConvergenceOut "convergence_figure product"
  | ErrorOut "error_figure product"
  | SummaryOut "report product"
  | Uncaught exn

record run =
  exit_status :: int
  stdout :: "string list"
  outcome :: outcome

definition dispatch ::
  "(real \<Rightarrow> real) \<Rightarrow> illposed \<Rightarrow> filesystem \<Rightarrow> string \<Rightarrow> string option \<Rightarrow> mode
     \<Rightarrow> exn + (string list \<times> outcome)"
where
  "dispatch rnd ill fs path out m =
     (case m of
        Convergence \<Rightarrow>
          and_then (plot_convergence rnd fs path out) (\<lambda>(ls, p). Inr (ls, ConvergenceOut p))
      | ErrorAnalysis \<Rightarrow>
          and_then (plot_error_analysis rnd ill fs path out) (\<lambda>(ls, p). Inr (ls, ErrorOut p))
      | Summary \<Rightarrow>
          and_then (create_summary_report rnd ill fs path) (\<lambda>(ls, p). Inr (ls, SummaryOut p)))"

record args =
  arg_csv_file :: string
  arg_output :: "string option"
  arg_type :: mode
  arg_no_display :: bool

text \<open>
  \<^verbatim>\<open>sys.exit(1)\<close> ends the run with status 1; so does an exception nobody catches;
  a run that reaches the end of \<^verbatim>\<open>main\<close> has status 0.
\<close>

definition main :: "(real \<Rightarrow> real) \<Rightarrow> illposed \<Rightarrow> filesystem \<Rightarrow> args \<Rightarrow> run" where
  "main rnd ill fs a =
     (if \<not> exists fs (arg_csv_file a)
      then \<lparr>exit_status = 1, stdout = [not_found_msg (arg_csv_file a)], outcome = NotDispatched\<rparr>
      else (case dispatch rnd ill fs (arg_csv_file a) (arg_output a) (arg_type a) of
              Inl e \<Rightarrow> \<lparr>exit_status = 1, stdout = [], outcome = Uncaught e\<rparr>
            | Inr (ls, out) \<Rightarrow>
                \<lparr>exit_status = 0,
                 stdout = ls @
                   (case arg_output a of
                      None \<Rightarrow> []
                    | Some p \<Rightarrow>
                        (if truthy (arg_output a) \<and> \<not> arg_no_display a
                         then [CHR 0x0A # ''Plot saved to: '' @ p,
                               ''You can also view it with: display '' @ p]
                         else [])),
                 outcome = out\<rparr>))"

section \<open>Notions the properties are stated with\<close>

text \<open>The figure or report a product holds, if any.\<close>

fun content :: "'a product \<Rightarrow> 'a option" where
  "content Nothing = None"
| "content (Saved x p) = Some x"
| "content (Shown x) = Some x"
| "content (Printed x) = Some x"



section \<open>What each function returns on a table\<close>

lemma read_csv_table: "fs f = Table df \<Longrightarrow> read_csv fs f = Inr df"
  by (simp add: read_csv_def)

lemma content_finish: "content (snd (finish l out fig)) = Some fig"
  by (cases out) (simp_all add: finish_def)

lemma plot_convergence_table:
  "read_csv fs f = Inr df \<Longrightarrow>
   plot_convergence rnd fs f out = Inr (finish ''Plot saved to '' out (convergence_panels rnd df))"
  by (simp add: plot_convergence_def)

lemma rate_analysis_short: "length df < 2 \<Longrightarrow> rate_analysis ill df = Inr None"
  by (simp add: rate_analysis_def)

lemma create_summary_report_table:
  "read_csv fs f = Inr df \<Longrightarrow> df \<noteq> [] \<Longrightarrow> rate_analysis ill df = Inr rate \<Longrightarrow>
   create_summary_report rnd ill fs f = Inr ([], Printed
     \<lparr>rp_file = f,
      rp_total = length df,
      rp_sample_range = sample_range (map Sample_Count df),
      rp_final_estimate = Pi_Estimate (last df),
      rp_actual_pi = np_pi,
      rp_final_error = Error (last df),
      rp_relative_error = rnd (rnd (Error (last df) / np_pi) * 100),
      rp_error = describe (map Error df),
      rp_estimate = describe (map Pi_Estimate df),
      rp_convergence =
        map_option (\<lambda>f. (convergence_rate f, fdiv_const rnd (convergence_rate f) 0.5)) rate\<rparr>)"
  by (simp add: create_summary_report_def and_then_def iloc_last_def last_map)

lemma create_summary_report_raises:
  "read_csv fs f = Inr df \<Longrightarrow> df \<noteq> [] \<Longrightarrow> rate_analysis ill df = Inl e \<Longrightarrow>
   create_summary_report rnd ill fs f = Inl e"
  by (simp add: create_summary_report_def and_then_def iloc_last_def last_map)

lemma plot_error_analysis_table:
  "read_csv fs f = Inr df \<Longrightarrow> df \<noteq> [] \<Longrightarrow> rate_analysis ill df = Inr rate \<Longrightarrow>
   plot_error_analysis rnd ill fs f out = Inr (finish ''Error analysis plot saved to '' out
     \<lparr>ef_errors = zip (map Sample_Count df) (map Error df),
      ef_theoretical = theoretical_error rnd df,
      ef_relative_error = relative_error rnd df,
      ef_scatter = zip (map Pi_Estimate df) (map Error df),
      ef_rate = rate,
      ef_summary =
        \<lparr>st_final_estimate = Pi_Estimate (last df), st_actual_pi = np_pi,
         st_final_error = Error (last df),
         st_final_rel_error = rnd (rnd (Error (last df) / np_pi) * 100),
         st_error = describe (map Error df)\<rparr>,
      ef_efficiency = efficiency rnd df\<rparr>)"
  by (simp add: plot_error_analysis_def and_then_def iloc_last_def last_map
      relative_error_def)

lemma plot_error_analysis_raises:
  "read_csv fs f = Inr df \<Longrightarrow> rate_analysis ill df = Inl e \<Longrightarrow>
   plot_error_analysis rnd ill fs f out = Inl e"
  by (simp add: plot_error_analysis_def and_then_def)

section \<open>Least squares over a list of rows\<close>





















lemma plot_error_analysis_InrD:
  assumes "read_csv fs f = Inr df" "plot_error_analysis rnd ill fs f out = Inr (ls, p)"
  shows "df \<noteq> [] \<and> (\<exists>rate. rate_analysis ill df = Inr rate)"
  using assms
  by (cases "rate_analysis ill df"; cases "df = []")
     (simp_all add: plot_error_analysis_def and_then_def iloc_last_def)

lemma create_summary_report_InrD:
  assumes "read_csv fs f = Inr df" "create_summary_report rnd ill fs f = Inr (ls, p)"
  shows "df \<noteq> [] \<and> (\<exists>rate. rate_analysis ill df = Inr rate)"
  using assms
  by (cases "rate_analysis ill df"; cases "df = []")
     (simp_all add: create_summary_report_def and_then_def iloc_last_def)


section \<open>Statistics of a column\<close>





section \<open>Binary64 values of the efficiency\<close>

lemma b64_at:
  assumes "0 < x" "2 powi k \<le> x" "x < 2 powi (k + 1)"
  shows "b64 x = of_int (round_even (x / 2 powi (k - 52))) * 2 powi (k - 52)"
proof -
  have lo: "(2::real) powr real_of_int k = 2 powi k"
    by (rule powr_real_of_int') simp_all
  have hi: "(2::real) powr (real_of_int k + 1) = 2 powi (k + 1)"
    using powr_real_of_int'[of 2 "k + 1"] by simp
  have "\<lfloor>log 2 x\<rfloor> = k"
    using assms by (simp add: floor_log_eq_powr_iff lo hi)
  then show ?thesis
    using assms(1) by (simp add: b64_def Let_def)
qed

lemma b64_tenth: "b64 (1 / 10) = 3602879701896397 / 36028797018963968"
  using b64_at[of "1 / 10" "- 4"]
  by (simp add: round_even_def power_int_minus)

lemma b64_square:
  "b64 (3602879701896397 / 36028797018963968 * (3602879701896397 / 36028797018963968))
     = 1441151880758559 / 144115188075855872"
  using b64_at[of "3602879701896397 / 36028797018963968 * (3602879701896397 / 36028797018963968)" "- 7"]
  by (simp add: round_even_def power_int_minus)

lemma b64_times_hundred:
  "b64 (100 * (1441151880758559 / 144115188075855872)) = 4503599627370497 / 4503599627370496"
  using b64_at[of "100 * (1441151880758559 / 144115188075855872)" 0]
  by (simp add: round_even_def power_int_minus)

lemma b64_reciprocal:
  "b64 (1 / (4503599627370497 / 4503599627370496)) = 4503599627370495 / 4503599627370496"
  using b64_at[of "1 / (4503599627370497 / 4503599627370496)" "- 1"]
  by (simp add: round_even_def power_int_minus)

lemma efficiency_b64_row:
  "efficiency b64 [\<lparr>Sample_Count = 100, Pi_Estimate = w, Error = b64 (1 / 10)\<rparr>]
     = [Num (4503599627370495 / 4503599627370496)]"
proof -
  have d: "efficiency_divisor b64 \<lparr>Sample_Count = 100, Pi_Estimate = w, Error = b64 (1 / 10)\<rparr>
      = 4503599627370497 / 4503599627370496"
    unfolding efficiency_divisor_def
    by (simp only: row.simps b64_tenth b64_square of_int_numeral b64_times_hundred)
  show ?thesis
    unfolding efficiency_def
    by (simp only: list.map d np_reciprocal.simps b64_reciprocal) simp
qed

lemma efficiency_exact:
  assumes "\<forall>r\<in>set df. Sample_Count r \<noteq> 0 \<and> Error r \<noteq> 0"
  shows "efficiency id df = map (\<lambda>r. Num (1 / (of_int (Sample_Count r) * (Error r)\<^sup>2))) df"
  using assms by (simp add: efficiency_def efficiency_divisor_def power2_eq_square)


section \<open>Rounding error of binary64\<close>





section \<open>The driver after dispatch\<close>

lemma main_dispatched:
  assumes "fs (arg_csv_file a) \<noteq> Missing"
    and "dispatch rnd ill fs (arg_csv_file a) (arg_output a) (arg_type a) = Inr (ls, out)"
  shows "exit_status (main rnd ill fs a) = 0 \<and> outcome (main rnd ill fs a) = out"
  using assms by (simp add: main_def exists_def)


section \<open>Load failures\<close>

text \<open>
  Claim C1. Every visualisation catches a load failure (file not found, or file empty)
  where it loads the file, prints a message naming the file and returns without
  output, so that no exception of the load leaves the function.

  On a file without columns the code does this in \<^verbatim>\<open>plot_convergence\<close> only, which
  has the handler for \<^verbatim>\<open>EmptyDataError\<close>; \<^verbatim>\<open>plot_error_analysis\<close> and
  \<^verbatim>\<open>create_summary_report\<close> handle \<^verbatim>\<open>FileNotFoundError\<close> alone, and the
  exception leaves them.
\<close>

theorem empty_file_escapes_two_functions:
  "plot_error_analysis rnd ill (\<lambda>p. EmptyFile) ''results.csv'' None = Inl EmptyDataError
   \<and> create_summary_report rnd ill (\<lambda>p. EmptyFile) ''results.csv'' = Inl EmptyDataError
   \<and> plot_convergence rnd (\<lambda>p. EmptyFile) ''results.csv'' None
       = Inr ([empty_msg ''results.csv''], Nothing)"
  by (simp add: plot_error_analysis_def create_summary_report_def plot_convergence_def
      read_csv_def)

section \<open>A table of one row\<close>

text \<open>
  Claim C10. On a table of exactly one row \<^verbatim>\<open>create_summary_report\<close> prints the whole
  report without the convergence section, and both standard deviations it prints are
  not-a-number, not zero: with the \<open>n - 1\<close> denominator the standard deviation of one
  value is undefined.
\<close>

theorem single_row_report:
  assumes "fs f = Table [r]"
  shows "\<exists>rep. create_summary_report rnd ill fs f = Inr ([], Printed rep)
     \<and> rp_total rep = 1
     \<and> rp_final_estimate rep = Pi_Estimate r \<and> rp_final_error rep = Error r
     \<and> stat_min (rp_error rep) = Num (Error r) \<and> stat_max (rp_error rep) = Num (Error r)
     \<and> stat_mean (rp_error rep) = Num (Error r)
     \<and> stat_min (rp_estimate rep) = Num (Pi_Estimate r)
     \<and> stat_max (rp_estimate rep) = Num (Pi_Estimate r)
     \<and> stat_mean (rp_estimate rep) = Num (Pi_Estimate r)
     \<and> rp_convergence rep = None
     \<and> stat_std (rp_error rep) = NaN \<and> stat_std (rp_estimate rep) = NaN
     \<and> NaN \<noteq> Num 0"
proof -
  have rd: "read_csv fs f = Inr [r]"
    using assms by (simp add: read_csv_def)
  have ra: "rate_analysis ill [r] = Inr None"
    by (simp add: rate_analysis_short)
  have ne: "[r] \<noteq> []"
    by simp
  show ?thesis
    unfolding create_summary_report_table [OF rd ne ra]
    by (simp add: describe_def pd_std_def pd_mean_def mean_def)
qed

theorem single_row_report_witness:
  "(\<lambda>p. Table [\<lparr>Sample_Count = 1000, Pi_Estimate = 3.14, Error = 0.0016\<rparr>]) ''run.csv''
     = Table [\<lparr>Sample_Count = 1000, Pi_Estimate = 3.14, Error = 0.0016\<rparr>]
   \<and> (\<exists>rep. create_summary_report id (\<lambda>xs ys. Inl LinAlgError)
           (\<lambda>p. Table [\<lparr>Sample_Count = 1000, Pi_Estimate = 3.14, Error = 0.0016\<rparr>])
           ''run.csv'' = Inr ([], Printed rep)
        \<and> rp_convergence rep = None
        \<and> stat_std (rp_error rep) = NaN \<and> stat_std (rp_estimate rep) = NaN)"
  using single_row_report
    [where rnd = id and fs = "\<lambda>p. Table [\<lparr>Sample_Count = 1000, Pi_Estimate = 3.14, Error = 0.0016\<rparr>]"
       and f = "''run.csv''" and r = "\<lparr>Sample_Count = 1000, Pi_Estimate = 3.14, Error = 0.0016\<rparr>"
       and ill = "\<lambda>xs ys. Inl LinAlgError"]
  by auto

section \<open>The convergence rate\<close>








section \<open>Relative error\<close>




section \<open>Too few rows\<close>





section \<open>Logarithms and divisors\<close>




section \<open>Summary statistics\<close>



section \<open>Sample efficiency\<close>

text \<open>
  Claim C5, as stated: the sample efficiency computed by \<^verbatim>\<open>plot_error_analysis\<close> is
  \<open>1 / (sample_count * error^2)\<close>, and for a row with sample count 100 and error 0.1
  it is exactly 1.0. In binary64 the second part fails: 0.1 is the float
  3602879701896397 / 2^55, its square rounds to a float above 0.01, the product with
  100 rounds to \<open>1 + 2^-52\<close>, and the quotient rounds to \<open>1 - 2^-52\<close>, printed
  0.9999999999999998.
\<close>

theorem efficiency_of_hundred_and_tenth_is_not_one:
  "efficiency b64 [\<lparr>Sample_Count = 100, Pi_Estimate = 3.2, Error = b64 (1 / 10)\<rparr>] \<noteq> [Num 1]"
  unfolding efficiency_b64_row by simp


text \<open>
  Claim C5, amended: for every observation with non-zero sample count and error the
  efficiency is \<open>1 / (sample_count * error^2)\<close> in exact arithmetic, where the row
  with sample count 100 and error 1/10 gives exactly 1; in binary64 the row with
  sample count 100 and error 0.1 gives \<open>1 - 2^-52\<close>; and the efficiency column of the
  figure of \<^verbatim>\<open>plot_error_analysis\<close> is this sequence.
\<close>

theorem efficiency_exact_and_binary64:
  "((\<forall>r\<in>set df. Sample_Count r \<noteq> 0 \<and> Error r \<noteq> 0) \<longrightarrow>
      efficiency id df = map (\<lambda>r. Num (1 / (of_int (Sample_Count r) * (Error r)\<^sup>2))) df)
   \<and> efficiency id [\<lparr>Sample_Count = 100, Pi_Estimate = w, Error = 1 / 10\<rparr>] = [Num 1]
   \<and> b64 (1 / 10) = 3602879701896397 / 2 ^ 55
   \<and> efficiency b64 [\<lparr>Sample_Count = 100, Pi_Estimate = w, Error = b64 (1 / 10)\<rparr>]
       = [Num (1 - 1 / 2 ^ 52)]
   \<and> (\<forall>ls p. fs f = Table df \<and> plot_error_analysis rnd ill fs f out = Inr (ls, p) \<longrightarrow>
         (\<exists>fig. content p = Some fig \<and> ef_efficiency fig = efficiency rnd df))"
proof -
  have a: "efficiency id df = map (\<lambda>r. Num (1 / (of_int (Sample_Count r) * (Error r)\<^sup>2))) df"
    if "\<forall>r\<in>set df. Sample_Count r \<noteq> 0 \<and> Error r \<noteq> 0"
    using that by (rule efficiency_exact)
  have b: "efficiency id [\<lparr>Sample_Count = 100, Pi_Estimate = w, Error = 1 / 10\<rparr>] = [Num 1]"
    by (simp add: efficiency_def efficiency_divisor_def)
  have c: "b64 (1 / 10) = 3602879701896397 / 2 ^ 55"
    unfolding b64_tenth by simp
  have d: "efficiency b64 [\<lparr>Sample_Count = 100, Pi_Estimate = w, Error = b64 (1 / 10)\<rparr>]
       = [Num (1 - 1 / 2 ^ 52)]"
    unfolding efficiency_b64_row by simp
  have e: "\<exists>fig. content p = Some fig \<and> ef_efficiency fig = efficiency rnd df"
    if t: "fs f = Table df" and r: "plot_error_analysis rnd ill fs f out = Inr (ls, p)" for ls p
  proof -
    have rd: "read_csv fs f = Inr df" using t by (simp add: read_csv_def)
    from plot_error_analysis_InrD[OF rd r] obtain rate
      where ne: "df \<noteq> []" and ra: "rate_analysis ill df = Inr rate" by blast
    from r show ?thesis
      unfolding plot_error_analysis_table[OF rd ne ra]
      by (cases out) (auto simp: finish_def split: if_splits)
  qed
  from a b c d e show ?thesis by blast
qed


theorem efficiency_exact_and_binary64_witness:
  "\<exists>ls p fig. plot_error_analysis b64 (\<lambda>xs ys. Inl LinAlgError)
       (\<lambda>p. Table [\<lparr>Sample_Count = 100, Pi_Estimate = 3.2, Error = b64 (1 / 10)\<rparr>])
       ''run.csv'' None = Inr (ls, p)
     \<and> content p = Some fig
     \<and> ef_efficiency fig = [Num (1 - 1 / 2 ^ 52)]"
proof -
  let ?df = "[\<lparr>Sample_Count = 100, Pi_Estimate = 3.2, Error = b64 (1 / 10)\<rparr>]"
  let ?fs = "\<lambda>p::string. Table ?df"
  let ?ill = "\<lambda>(xs::fnum list) (ys::fnum list). (Inl LinAlgError :: exn + coeffs)"
  have t: "?fs ''run.csv'' = Table ?df" by simp
  have rd: "read_csv ?fs ''run.csv'' = Inr ?df" by (simp add: read_csv_def)
  have ne: "?df \<noteq> []" by simp
  have ra: "rate_analysis ?ill ?df = Inr None" by (simp add: rate_analysis_short)
  have "\<exists>ls p. plot_error_analysis b64 ?ill ?fs ''run.csv'' None = Inr (ls, p)"
    unfolding plot_error_analysis_table[OF rd ne ra] by (simp add: finish_def)
  then obtain ls p where r: "plot_error_analysis b64 ?ill ?fs ''run.csv'' None = Inr (ls, p)"
    by blast
  from efficiency_exact_and_binary64 [where df = ?df and fs = ?fs and f = "''run.csv''" and rnd = b64 and ill = ?ill
        and out = None and w = "3.2"] t r
  obtain fig where "content p = Some fig" "ef_efficiency fig = efficiency b64 ?df"
    "efficiency b64 ?df = [Num (1 - 1 / 2 ^ 52)]"
    by blast
  with r show ?thesis by metis
qed

section \<open>Exit status\<close>

text \<open>
  Claim C7, as stated: \<^verbatim>\<open>main\<close> exits with a non-zero status and a message naming
  the file when the input path does not exist; otherwise, in every mode, it exits with
  status zero after producing the selected output. On a file that exists but is empty
  the convergence mode prints the message of \<^verbatim>\<open>plot_convergence\<close> and the run ends
  with status zero without any output produced.
\<close>

theorem main_exits_zero_without_output_on_empty_file:
  "main id (\<lambda>xs ys. Inl LinAlgError) (\<lambda>p. EmptyFile)
     \<lparr>arg_csv_file = ''results.csv'', arg_output = None, arg_type = Convergence,
      arg_no_display = False\<rparr>
   = \<lparr>exit_status = 0, stdout = [empty_msg ''results.csv''],
      outcome = ConvergenceOut Nothing\<rparr>"
  by (simp add: main_def exists_def dispatch_def and_then_def plot_convergence_def read_csv_def)


text \<open>
  Claim C7, amended: \<^verbatim>\<open>main\<close> exits with status 1 and prints the message naming the
  file when the input path does not exist. When the path holds a table, it exits with
  status zero after producing the selected output: in convergence mode always, in
  error and summary mode when the table has at least one row and the fit of the
  convergence rate returns. In convergence mode on an empty file it prints the message
  that the file is empty and exits with status zero without output.
\<close>

theorem main_exit_status:
  "(fs (arg_csv_file a) = Missing \<longrightarrow>
      main rnd ill fs a
        = \<lparr>exit_status = 1, stdout = [not_found_msg (arg_csv_file a)],
           outcome = NotDispatched\<rparr>)
   \<and> (fs (arg_csv_file a) = Table df \<and> arg_type a = Convergence \<longrightarrow>
        exit_status (main rnd ill fs a) = 0
        \<and> (\<exists>p fig. outcome (main rnd ill fs a) = ConvergenceOut p \<and> content p = Some fig))
   \<and> (fs (arg_csv_file a) = Table df \<and> arg_type a = ErrorAnalysis
        \<and> df \<noteq> [] \<and> rate_analysis ill df = Inr rate \<longrightarrow>
        exit_status (main rnd ill fs a) = 0
        \<and> (\<exists>p fig. outcome (main rnd ill fs a) = ErrorOut p \<and> content p = Some fig))
   \<and> (fs (arg_csv_file a) = Table df \<and> arg_type a = Summary
        \<and> df \<noteq> [] \<and> rate_analysis ill df = Inr rate \<longrightarrow>
        exit_status (main rnd ill fs a) = 0
        \<and> (\<exists>rep. outcome (main rnd ill fs a) = SummaryOut (Printed rep)))
   \<and> (fs (arg_csv_file a) = EmptyFile \<and> arg_type a = Convergence \<longrightarrow>
        exit_status (main rnd ill fs a) = 0
        \<and> outcome (main rnd ill fs a) = ConvergenceOut Nothing
        \<and> hd (stdout (main rnd ill fs a)) = empty_msg (arg_csv_file a))"
proof -
  have m: "main rnd ill fs a
        = \<lparr>exit_status = 1, stdout = [not_found_msg (arg_csv_file a)],
           outcome = NotDispatched\<rparr>"
    if "fs (arg_csv_file a) = Missing"
    using that by (simp add: main_def exists_def)
  have c: "exit_status (main rnd ill fs a) = 0
        \<and> (\<exists>p fig. outcome (main rnd ill fs a) = ConvergenceOut p \<and> content p = Some fig)"
    if t: "fs (arg_csv_file a) = Table df" and ty: "arg_type a = Convergence"
  proof -
    have rd: "read_csv fs (arg_csv_file a) = Inr df" using t by (simp add: read_csv_def)
    obtain ls p where f: "finish ''Plot saved to '' (arg_output a) (convergence_panels rnd df) = (ls, p)"
      by (cases "finish ''Plot saved to '' (arg_output a) (convergence_panels rnd df)")
    have cp: "content p = Some (convergence_panels rnd df)"
      using content_finish[of "''Plot saved to ''" "arg_output a" "convergence_panels rnd df"] f
      by simp
    have d: "dispatch rnd ill fs (arg_csv_file a) (arg_output a) (arg_type a)
        = Inr (ls, ConvergenceOut p)"
      by (simp add: dispatch_def ty plot_convergence_table[OF rd] f and_then_def)
    from main_dispatched[OF _ d] t cp show ?thesis by simp
  qed
  have e: "exit_status (main rnd ill fs a) = 0
        \<and> (\<exists>p fig. outcome (main rnd ill fs a) = ErrorOut p \<and> content p = Some fig)"
    if t: "fs (arg_csv_file a) = Table df" and ty: "arg_type a = ErrorAnalysis"
      and ne: "df \<noteq> []" and ra: "rate_analysis ill df = Inr rate"
  proof -
    have rd: "read_csv fs (arg_csv_file a) = Inr df" using t by (simp add: read_csv_def)
    note pt = plot_error_analysis_table[OF rd ne ra, of rnd "arg_output a"]
    then obtain fig where pe: "plot_error_analysis rnd ill fs (arg_csv_file a) (arg_output a)
        = Inr (finish ''Error analysis plot saved to '' (arg_output a) fig)"
      by blast
    obtain ls p where f: "finish ''Error analysis plot saved to '' (arg_output a) fig = (ls, p)"
      by (cases "finish ''Error analysis plot saved to '' (arg_output a) fig")
    have cp: "content p = Some fig"
      using content_finish[of "''Error analysis plot saved to ''" "arg_output a" fig] f by simp
    have d: "dispatch rnd ill fs (arg_csv_file a) (arg_output a) (arg_type a)
        = Inr (ls, ErrorOut p)"
      by (simp add: dispatch_def ty pe f and_then_def)
    from main_dispatched[OF _ d] t cp show ?thesis by simp
  qed
  have s: "exit_status (main rnd ill fs a) = 0
        \<and> (\<exists>rep. outcome (main rnd ill fs a) = SummaryOut (Printed rep))"
    if t: "fs (arg_csv_file a) = Table df" and ty: "arg_type a = Summary"
      and ne: "df \<noteq> []" and ra: "rate_analysis ill df = Inr rate"
  proof -
    have rd: "read_csv fs (arg_csv_file a) = Inr df" using t by (simp add: read_csv_def)
    note st = create_summary_report_table[OF rd ne ra, of rnd]
    then obtain rep where sr: "create_summary_report rnd ill fs (arg_csv_file a)
        = Inr ([], Printed rep)"
      by blast
    have d: "dispatch rnd ill fs (arg_csv_file a) (arg_output a) (arg_type a)
        = Inr ([], SummaryOut (Printed rep))"
      by (simp add: dispatch_def ty sr and_then_def)
    from main_dispatched[OF _ d] t show ?thesis by simp
  qed
  have z: "exit_status (main rnd ill fs a) = 0
        \<and> outcome (main rnd ill fs a) = ConvergenceOut Nothing
        \<and> hd (stdout (main rnd ill fs a)) = empty_msg (arg_csv_file a)"
    if t: "fs (arg_csv_file a) = EmptyFile" and ty: "arg_type a = Convergence"
    using t ty
    by (simp add: main_def exists_def dispatch_def and_then_def plot_convergence_def
        read_csv_def)
  from m c e s z show ?thesis by blast
qed


theorem main_exit_status_witness:
  "exit_status (main id (\<lambda>xs ys. Inl LinAlgError) (\<lambda>p. Missing)
      \<lparr>arg_csv_file = ''nowhere.csv'', arg_output = None, arg_type = Summary,
       arg_no_display = False\<rparr>) = 1
   \<and> exit_status (main id (\<lambda>xs ys. Inl LinAlgError)
      (\<lambda>p. Table [\<lparr>Sample_Count = 1000, Pi_Estimate = 3.14, Error = 0.0016\<rparr>])
      \<lparr>arg_csv_file = ''run.csv'', arg_output = Some ''plot.png'', arg_type = ErrorAnalysis,
       arg_no_display = False\<rparr>) = 0
   \<and> (\<exists>p fig. outcome (main id (\<lambda>xs ys. Inl LinAlgError)
      (\<lambda>p. Table [\<lparr>Sample_Count = 1000, Pi_Estimate = 3.14, Error = 0.0016\<rparr>])
      \<lparr>arg_csv_file = ''run.csv'', arg_output = Some ''plot.png'', arg_type = ErrorAnalysis,
       arg_no_display = False\<rparr>) = ErrorOut p \<and> content p = Some fig)"
proof -
  let ?ill = "\<lambda>(xs::fnum list) (ys::fnum list). (Inl LinAlgError :: exn + coeffs)"
  let ?a0 = "\<lparr>arg_csv_file = ''nowhere.csv'', arg_output = None, arg_type = Summary,
       arg_no_display = False\<rparr>"
  let ?df = "[\<lparr>Sample_Count = 1000, Pi_Estimate = 3.14, Error = 0.0016\<rparr>]"
  let ?a1 = "\<lparr>arg_csv_file = ''run.csv'', arg_output = Some ''plot.png'',
       arg_type = ErrorAnalysis, arg_no_display = False\<rparr>"
  have ra: "rate_analysis ?ill ?df = Inr None" by (simp add: rate_analysis_short)
  from main_exit_status [where fs = "\<lambda>p. Missing" and a = ?a0 and rnd = id and ill = ?ill]
  have m: "exit_status (main id ?ill (\<lambda>p. Missing) ?a0) = 1" by simp
  from main_exit_status [where fs = "\<lambda>p. Table ?df" and a = ?a1 and rnd = id and ill = ?ill
        and df = ?df and rate = None] ra
  have e: "exit_status (main id ?ill (\<lambda>p. Table ?df) ?a1) = 0
        \<and> (\<exists>p fig. outcome (main id ?ill (\<lambda>p. Table ?df) ?a1) = ErrorOut p
              \<and> content p = Some fig)"
    by simp
  from m e show ?thesis by blast
qed

end
